theory Spec2Isabelle
  imports Main "HOL-Library.Word" "HOL-Library.Sublist"
begin

section \<open>Strings, turns and the context store\<close>

text \<open>
  A JavaScript string is a sequence of UTF-16 code units; \<open>length\<close> counts code units
  and a regular expression without the \<open>u\<close> flag matches code units.  String literals
  of the source that are plain ASCII are written with \<open>lit\<close>; the two emoji of the
  replies are given by their surrogate pairs.
\<close>

type_synonym code_unit = "16 word"
type_synonym js_string = "code_unit list"

definition lit :: "string \<Rightarrow> js_string" where
  "lit s = map of_char s"

definition crying_cat :: js_string where
  "crying_cat = [0xD83D, 0xDE3F]"

definition broom :: js_string where
  "broom = [0xD83E, 0xDDF9]"

text \<open>A message object \<open>{ role, content }\<close> of the conversation.\<close>

datatype role = User | Assistant

record turn =
  role :: role
  content :: js_string

text \<open>
  \<open>userContexts\<close> is a \<open>Map\<close> from user ids to array objects.  The arrays are
  mutated in place by \<open>push\<close> and are shared between the map and the local variable
  \<open>context\<close> of \<open>generateResponse\<close>, so arrays live in a heap and the map holds
  their addresses.  \<open>next_addr\<close> is the allocation counter for new arrays.
\<close>

type_synonym user_id = int
type_synonym addr = nat

record state =
  heap :: "addr \<Rightarrow> turn list"
  next_addr :: addr
  userContexts :: "user_id \<rightharpoonup> addr"

definition init_state :: state where
  "init_state = \<lparr>heap = (\<lambda>_. []), next_addr = 0, userContexts = Map.empty\<rparr>"

text \<open>\<open>new Array\<close> / array literal / \<open>slice\<close> result: a fresh array object.\<close>

definition alloc :: "turn list \<Rightarrow> state \<Rightarrow> addr \<times> state" where
  "alloc xs st =
     (next_addr st,
      st\<lparr>heap := (heap st)(next_addr st := xs), next_addr := Suc (next_addr st)\<rparr>)"

text \<open>\<open>array.push(t)\<close>: appends in place, visible through every alias.\<close>

definition push :: "addr \<Rightarrow> turn \<Rightarrow> state \<Rightarrow> state" where
  "push a t st = st\<lparr>heap := (heap st)(a := heap st a @ [t])\<rparr>"

text \<open>\<open>xs.slice(-n)\<close>: the last \<open>n\<close> elements, all of them when there are fewer.\<close>

definition slice_last :: "nat \<Rightarrow> 'a list \<Rightarrow> 'a list" where
  "slice_last n xs = drop (length xs - n) xs"

text \<open>\<open>userContexts.get(userId) || []\<close> read as a value: the stored history.\<close>

definition get_history :: "state \<Rightarrow> user_id \<Rightarrow> turn list" where
  "get_history st userId =
     (case userContexts st userId of None \<Rightarrow> [] | Some a \<Rightarrow> heap st a)"

text \<open>
  Every stored address has been allocated.  It holds initially and every operation
  below preserves it; it is what makes a freshly allocated array distinct from every
  stored one.
\<close>

definition wf_state :: "state \<Rightarrow> bool" where
  "wf_state st = (\<forall>u a. userContexts st u = Some a \<longrightarrow> a < next_addr st)"

section \<open>The inference call\<close>

text \<open>
  An error object as the handler inspects it: \<open>error.name\<close>, \<open>error.message\<close> and
  \<open>error.cause?.code\<close> (absent when there is no cause or the cause has no code).
\<close>

record js_error =
  err_name :: js_string
  err_message :: js_string
  cause_code :: "js_string option"

text \<open>\<open>new Error(msg)\<close>: name \<open>Error\<close>, no cause.\<close>

definition new_Error :: "js_string \<Rightarrow> js_error" where
  "new_Error msg = \<lparr>err_name = lit ''Error'', err_message = msg, cause_code = None\<rparr>"

text \<open>
  What the platform does with the request is the environment's choice: \<open>fetch\<close>
  rejects (connection refused, the abort signal of the timeout fired, ...), or it
  resolves with a response of some status whose body either yields
  \<open>data.message.content\<close> or makes \<open>response.json()\<close> / the property access throw.
  The content is a string, as the declared type \<open>Promise<string>\<close> of
  \<open>generateResponse\<close> has it.
\<close>

datatype body_result = BodyError js_error | BodyContent js_string

datatype fetch_outcome = FetchRejected js_error | FetchResponse nat body_result

text \<open>\<open>response.ok\<close> of the Fetch standard: the status is in the range 200 to 299.\<close>

definition response_ok :: "nat \<Rightarrow> bool" where
  "response_ok status = (200 \<le> status \<and> status \<le> 299)"

text \<open>The platform's rejection when \<open>AbortSignal.timeout\<close> fires: a \<open>TimeoutError\<close>.\<close>

definition timeout_error :: js_error where
  "timeout_error =
     \<lparr>err_name = lit ''TimeoutError'',
      err_message = lit ''The operation was aborted due to timeout'',
      cause_code = None\<rparr>"

text \<open>The platform's rejection when the endpoint refuses the connection.\<close>

definition connection_refused_error :: js_error where
  "connection_refused_error =
     \<lparr>err_name = lit ''TypeError'',
      err_message = lit ''fetch failed'',
      cause_code = Some (lit ''ECONNREFUSED'')\<rparr>"

text \<open>Decimal rendering of a number in a template literal (\<open>${response.status}\<close>).\<close>

definition digit_unit :: "nat \<Rightarrow> code_unit" where
  "digit_unit d = of_nat (48 + d)"

function decimal :: "nat \<Rightarrow> js_string" where
  "decimal n = (if n < 10 then [digit_unit n] else decimal (n div 10) @ [digit_unit (n mod 10)])"
  by pat_completeness auto
termination
  by (relation "measure (\<lambda>n. n)") auto

declare decimal.simps [simp del]

record config =
  OLLAMA_HOST :: js_string
  OLLAMA_MODEL :: js_string

text \<open>The request handed to \<open>fetch\<close>; \<open>messages\<close> is serialised when the call is made.\<close>

record request =
  url :: js_string
  model :: js_string
  messages :: "turn list"
  stream :: bool
  timeout_ms :: nat

datatype event =
    SendChatAction
  | SetInterval
  | ClearInterval
  | Reply js_string
  | Fetch request
  | ConsoleError js_string

text \<open>
  \<open>generateResponse(userId, prompt)\<close>.  The result is \<open>Inl error\<close> when the promise
  rejects and \<open>Inr text\<close> when it resolves; the state and the request made are
  returned with it.
\<close>

definition generateResponse ::
  "config \<Rightarrow> fetch_outcome \<Rightarrow> user_id \<Rightarrow> js_string \<Rightarrow> state
     \<Rightarrow> (js_error + js_string) \<times> state \<times> event list" where
  "generateResponse cfg outcome userId prompt st =
     (let (ctx0, st1) = (case userContexts st userId of
                           Some a \<Rightarrow> (a, st)
                         | None \<Rightarrow> alloc [] st);
          st2 = push ctx0 \<lparr>role = User, content = prompt\<rparr> st1;
          (ctx, st3) = (if length (heap st2 ctx0) > 10
                        then alloc (slice_last 10 (heap st2 ctx0)) st2
                        else (ctx0, st2));
          req = \<lparr>url = OLLAMA_HOST cfg @ lit ''/api/chat'',
                 model = OLLAMA_MODEL cfg,
                 messages = heap st3 ctx,
                 stream = False,
                 timeout_ms = 120000\<rparr>
      in case outcome of
           FetchRejected e \<Rightarrow> (Inl e, st3, [Fetch req])
         | FetchResponse status body \<Rightarrow>
             if \<not> response_ok status
             then (Inl (new_Error (lit ''Ollama error: '' @ decimal status)), st3, [Fetch req])
             else (case body of
                     BodyError e \<Rightarrow> (Inl e, st3, [Fetch req])
                   | BodyContent assistantMessage \<Rightarrow>
                       (let st4 = push ctx \<lparr>role = Assistant, content = assistantMessage\<rparr> st3;
                            st5 = st4\<lparr>userContexts := (userContexts st4)(userId \<mapsto> ctx)\<rparr>
                        in (Inr assistantMessage, st5, [Fetch req]))))"

section \<open>Response delivery\<close>

text \<open>
  \<open>response.match(/.{1,4000}/gs) || []\<close>: with the \<open>s\<close> flag the dot matches every
  code unit, so the global match returns the successive greedy matches of up to 4000
  code units, and \<open>null\<close> (replaced by the empty array) when the string is empty.
\<close>

function match_chunks :: "'a list \<Rightarrow> 'a list list" where
  "match_chunks xs = (if xs = [] then [] else take 4000 xs # match_chunks (drop 4000 xs))"
  by pat_completeness auto
termination
  by (relation "measure length") auto

declare match_chunks.simps [simp del]

text \<open>
  While the interval is armed its callback
  \<open>ctx.sendChatAction('typing').catch(() => { })\<close> runs whenever the handler is
  suspended long enough.  How many times it fires during an \<open>await\<close>, and whether each
  send succeeds, is the environment's choice; the callback discards the failure.
\<close>

definition typing_ticks :: "js_error option list \<Rightarrow> event list" where
  "typing_ticks results = map (\<lambda>_. SendChatAction) results"

text \<open>
  The environment of one run of the text handler: the result of the first
  \<open>sendChatAction\<close>, the outcome of the request, the result of the \<open>k\<close>-th
  \<open>ctx.reply\<close> call (\<open>None\<close> when it resolves), and the periodic sends firing during
  the \<open>k\<close>-th \<open>await\<close> of the \<open>try\<close> statement (0 is the inference call, \<open>k + 1\<close>
  the \<open>k\<close>-th reply).
\<close>

record env =
  typing_result :: "js_error option"
  fetch_result :: fetch_outcome
  reply_result :: "nat \<Rightarrow> js_error option"
  ticks :: "nat \<Rightarrow> js_error option list"

text \<open>\<open>await ctx.reply(text)\<close> as the \<open>k\<close>-th reply of the handler.\<close>

definition reply_one :: "env \<Rightarrow> nat \<Rightarrow> js_string \<Rightarrow> js_error option \<times> event list" where
  "reply_one e k text = (reply_result e k, Reply text # typing_ticks (ticks e (Suc k)))"

text \<open>
  \<open>for (const chunk of chunks) { await ctx.reply(chunk); }\<close>: stops at the first
  send that fails.  Returns the error, if any, and the number of replies made.
\<close>

fun reply_all :: "env \<Rightarrow> nat \<Rightarrow> js_string list \<Rightarrow> js_error option \<times> nat \<times> event list" where
  "reply_all e k [] = (None, k, [])"
| "reply_all e k (chunk # chunks) =
     (case reply_one e k chunk of
        (Some err, evs) \<Rightarrow> (Some err, Suc k, evs)
      | (None, evs) \<Rightarrow>
          (case reply_all e (Suc k) chunks of (r, k', evs') \<Rightarrow> (r, k', evs @ evs')))"

text \<open>The body of the \<open>try\<close> block after the inference call has returned.\<close>

definition deliver :: "env \<Rightarrow> js_string \<Rightarrow> js_error option \<times> nat \<times> event list" where
  "deliver e response =
     (if length response > 4000
      then reply_all e 0 (match_chunks response)
      else (case reply_one e 0 response of (r, evs) \<Rightarrow> (r, Suc 0, evs)))"

section \<open>The text handler\<close>

text \<open>The \<open>catch\<close> block's choice of \<open>errorMsg\<close>.\<close>

definition errorMsg_of :: "js_error \<Rightarrow> js_string" where
  "errorMsg_of error =
     (let errorMsg = err_message error;
          errorMsg = (if cause_code error = Some (lit ''ECONNREFUSED'')
                      then lit ''Ollama service is not available. Please try again later.''
                      else errorMsg);
          errorMsg = (if err_name error = lit ''TimeoutError''
                      then lit ''Response took too long. Please try a shorter message.''
                      else errorMsg)
      in errorMsg)"

definition apology :: "js_string \<Rightarrow> js_string" where
  "apology errorMsg =
     crying_cat @ lit '' Sorry, I encountered an error: '' @ errorMsg @ [0x0A, 0x0A] @
     lit ''Please try again or use /clear to reset.''"

text \<open>
  \<open>bot.on('text', async (ctx) => ...)\<close>.  The result is \<open>None\<close> when the handler's
  promise resolves and \<open>Some error\<close> when it rejects.
\<close>

definition on_text ::
  "config \<Rightarrow> env \<Rightarrow> user_id \<Rightarrow> js_string \<Rightarrow> state
     \<Rightarrow> js_error option \<times> state \<times> event list" where
  "on_text cfg e userId userMessage st =
     (case typing_result e of
        Some err \<Rightarrow> (Some err, st, [SendChatAction])
      | None \<Rightarrow>
          (case generateResponse cfg (fetch_result e) userId userMessage st of
             (r, st', fetch_evs) \<Rightarrow>
               (let (thrown, k, try_evs) =
                      (case r of
                         Inl err \<Rightarrow> (Some err, 0, [])
                       | Inr response \<Rightarrow> deliver e response);
                    (result, catch_evs) =
                      (case thrown of
                         None \<Rightarrow> (None, [])
                       | Some error \<Rightarrow>
                           (case reply_one e k (apology (errorMsg_of error)) of
                              (r', evs) \<Rightarrow> (r', ConsoleError (err_message error) # evs)))
                in (result, st',
                    [SendChatAction, SetInterval] @ fetch_evs @ typing_ticks (ticks e 0) @
                    try_evs @ catch_evs @ [ClearInterval]))))"

text \<open>\<open>bot.command('clear', ...)\<close>: forgets the user's entry and sends the confirmation.\<close>

definition on_clear :: "user_id \<Rightarrow> state \<Rightarrow> state \<times> event list" where
  "on_clear userId st =
     (st\<lparr>userContexts := (userContexts st)(userId := None)\<rparr>,
      [Reply (broom @ lit '' Conversation history cleared!'')])"

section \<open>Observations on event traces and runs\<close>

fun replies_of :: "event list \<Rightarrow> js_string list" where
  "replies_of [] = []"
| "replies_of (Reply text # evs) = text # replies_of evs"
| "replies_of (_ # evs) = replies_of evs"

fun requests_of :: "event list \<Rightarrow> request list" where
  "requests_of [] = []"
| "requests_of (Fetch req # evs) = req # requests_of evs"
| "requests_of (_ # evs) = requests_of evs"

text \<open>Whether the typing interval is armed after a trace, and how often it was cleared.\<close>

fun interval_armed :: "bool \<Rightarrow> event list \<Rightarrow> bool" where
  "interval_armed b [] = b"
| "interval_armed b (SetInterval # evs) = interval_armed True evs"
| "interval_armed b (ClearInterval # evs) = interval_armed False evs"
| "interval_armed b (_ # evs) = interval_armed b evs"

definition count_event :: "event \<Rightarrow> event list \<Rightarrow> nat" where
  "count_event ev evs = length (filter (\<lambda>x. x = ev) evs)"

text \<open>Successive calls of \<open>generateResponse\<close> for one user, each run to completion.\<close>

fun run_calls :: "config \<Rightarrow> user_id \<Rightarrow> (js_string \<times> fetch_outcome) list \<Rightarrow> state \<Rightarrow> state" where
  "run_calls cfg userId [] st = st"
| "run_calls cfg userId ((prompt, outcome) # calls) st =
     run_calls cfg userId calls (fst (snd (generateResponse cfg outcome userId prompt st)))"

text \<open>
  The outcomes on which \<open>generateResponse\<close> throws: a rejected \<open>fetch\<close>, a response
  that is not \<open>ok\<close>, or a body from which the reply cannot be read.
\<close>

definition fetch_fails :: "fetch_outcome \<Rightarrow> bool" where
  "fetch_fails outcome =
     (case outcome of
        FetchRejected e \<Rightarrow> True
      | FetchResponse status body \<Rightarrow>
          \<not> response_ok status \<or> (case body of BodyError e \<Rightarrow> True | BodyContent m \<Rightarrow> False))"

text \<open>A trace that neither arms nor clears the interval.\<close>

definition quiet :: "event list \<Rightarrow> bool" where
  "quiet evs = (SetInterval \<notin> set evs \<and> ClearInterval \<notin> set evs)"

section \<open>Basic facts\<close>

lemma length_slice_last: "length (slice_last n xs) = min n (length xs)"
  by (simp add: slice_last_def)

lemma replies_of_append: "replies_of (xs @ ys) = replies_of xs @ replies_of ys"
  by (induction xs rule: replies_of.induct) simp_all

lemma replies_of_typing_ticks: "replies_of (typing_ticks rs) = []"
  by (induction rs) (simp_all add: typing_ticks_def)

lemma requests_of_append: "requests_of (xs @ ys) = requests_of xs @ requests_of ys"
  by (induction xs rule: requests_of.induct) simp_all

lemma requests_of_typing_ticks: "requests_of (typing_ticks rs) = []"
  by (induction rs) (simp_all add: typing_ticks_def)

section \<open>Chunking\<close>

lemma concat_match_chunks: "concat (match_chunks xs) = xs"
proof (induction xs rule: match_chunks.induct)
  case (1 xs)
  show ?case
  proof (cases "xs = []")
    case True
    then show ?thesis by (simp add: match_chunks.simps)
  next
    case False
    with 1 have "concat (match_chunks (drop 4000 xs)) = drop 4000 xs" by simp
    with False show ?thesis by (subst match_chunks.simps) simp
  qed
qed

lemma match_chunks_bound: "c \<in> set (match_chunks xs) \<Longrightarrow> length c \<le> 4000 \<and> c \<noteq> []"
proof (induction xs rule: match_chunks.induct)
  case (1 xs)
  show ?case
  proof (cases "xs = []")
    case True
    with 1(2) show ?thesis by (simp add: match_chunks.simps)
  next
    case False
    from 1(2) False have "c = take 4000 xs \<or> c \<in> set (match_chunks (drop 4000 xs))"
      by (subst (asm) match_chunks.simps) simp
    then show ?thesis
    proof
      assume "c = take 4000 xs"
      with False show ?thesis by simp
    next
      assume "c \<in> set (match_chunks (drop 4000 xs))"
      with 1(1) False show ?thesis by simp
    qed
  qed
qed

lemma match_chunks_9000:
  assumes "length xs = 9000"
  shows "match_chunks xs = [take 4000 xs, take 4000 (drop 4000 xs), drop 8000 xs]"
proof -
  have a: "xs \<noteq> []" using assms by auto
  have b: "drop 4000 xs \<noteq> []" using assms by auto
  have c: "drop 8000 xs \<noteq> []" using assms by auto
  have d: "drop 4000 (drop 8000 xs) = []" using assms by simp
  have e: "take 4000 (drop 8000 xs) = drop 8000 xs" using assms by simp
  have "match_chunks (drop 8000 xs) = [drop 8000 xs]"
    using c d e by (subst match_chunks.simps) (simp add: match_chunks.simps)
  then have "match_chunks (drop 4000 xs) = [take 4000 (drop 4000 xs), drop 8000 xs]"
    using b by (subst match_chunks.simps) simp
  then show ?thesis
    using a by (subst match_chunks.simps) simp
qed

text \<open>When every send succeeds the loop sends every chunk, in order.\<close>

lemma reply_all_ok:
  assumes "\<forall>k. reply_result e k = None"
  shows "fst (reply_all e k chunks) = None \<and> replies_of (snd (snd (reply_all e k chunks))) = chunks"
proof (induction chunks arbitrary: k)
  case Nil
  show ?case by simp
next
  case (Cons c cs)
  obtain r k' evs where rec: "reply_all e (Suc k) cs = (r, k', evs)"
    by (cases "reply_all e (Suc k) cs") auto
  with Cons [of "Suc k"] have "r = None" "replies_of evs = cs" by simp_all
  with rec assms show ?case
    by (simp add: reply_one_def replies_of_append replies_of_typing_ticks)
qed

lemma deliver_ok:
  assumes "\<forall>k. reply_result e k = None"
  shows "replies_of (snd (snd (deliver e response))) =
           (if length response > 4000 then match_chunks response else [response])"
  using reply_all_ok [OF assms]
  by (simp add: deliver_def reply_one_def replies_of_typing_ticks split: prod.splits)

text \<open>
  C2.  When the sends succeed, the messages sent for a reply, concatenated in order,
  are the reply; none is longer than 4000 code units; a reply of at most 4000 code
  units is sent as the single message that it is; and a reply of 9000 code units is
  sent as three messages of 4000, 4000 and 1000 code units, the consecutive pieces of
  the reply.
\<close>

theorem chunking_lossless:
  assumes "\<forall>k. reply_result e k = None"
  shows "concat (replies_of (snd (snd (deliver e response)))) = response
       \<and> (\<forall>c \<in> set (replies_of (snd (snd (deliver e response)))). length c \<le> 4000)
       \<and> (length response \<le> 4000 \<longrightarrow> replies_of (snd (snd (deliver e response))) = [response])
       \<and> (length response = 9000 \<longrightarrow>
            replies_of (snd (snd (deliver e response)))
              = [take 4000 response, take 4000 (drop 4000 response), drop 8000 response]
            \<and> map length (replies_of (snd (snd (deliver e response)))) = [4000, 4000, 1000])"
proof -
  let ?sent = "replies_of (snd (snd (deliver e response)))"
  have sent: "?sent = (if length response > 4000 then match_chunks response else [response])"
    by (rule deliver_ok [OF assms])
  have 1: "concat ?sent = response"
    by (simp add: sent concat_match_chunks)
  have 2: "\<forall>c \<in> set ?sent. length c \<le> 4000"
    using match_chunks_bound [of _ response] by (auto simp: sent)
  have 3: "length response \<le> 4000 \<longrightarrow> ?sent = [response]"
    by (simp add: sent)
  have 4: "length response = 9000 \<longrightarrow>
      ?sent = [take 4000 response, take 4000 (drop 4000 response), drop 8000 response]
      \<and> map length ?sent = [4000, 4000, 1000]"
    by (simp add: sent match_chunks_9000)
  from 1 2 3 4 show ?thesis by blast
qed

theorem chunking_lossless_witness:
  "(\<forall>k. reply_result \<lparr>typing_result = None, fetch_result = FetchRejected timeout_error,
                      reply_result = (\<lambda>_. None), ticks = (\<lambda>_. [])\<rparr> k = None)
   \<and> map length (replies_of (snd (snd (deliver
         \<lparr>typing_result = None, fetch_result = FetchRejected timeout_error,
          reply_result = (\<lambda>_. None), ticks = (\<lambda>_. [])\<rparr> (replicate 9000 0x61)))))
       = [4000, 4000, 1000]
   \<and> concat (replies_of (snd (snd (deliver
         \<lparr>typing_result = None, fetch_result = FetchRejected timeout_error,
          reply_result = (\<lambda>_. None), ticks = (\<lambda>_. [])\<rparr> (replicate 9000 0x61)))))
       = replicate 9000 0x61
   \<and> replies_of (snd (snd (deliver
         \<lparr>typing_result = None, fetch_result = FetchRejected timeout_error,
          reply_result = (\<lambda>_. None), ticks = (\<lambda>_. [])\<rparr> (lit ''hi there''))))
       = [lit ''hi there'']"
proof -
  let ?e = "\<lparr>typing_result = None, fetch_result = FetchRejected timeout_error,
          reply_result = (\<lambda>_. None), ticks = (\<lambda>_. [])\<rparr>"
  let ?long = "replicate 9000 (0x61 :: code_unit)"
  have h: "\<forall>k. reply_result ?e k = None" by simp
  have long: "length ?long = 9000" by simp
  have short: "length (lit ''hi there'') \<le> 4000" by (simp add: lit_def)
  from chunking_lossless [OF h, of ?long] long
  have a: "map length (replies_of (snd (snd (deliver ?e ?long)))) = [4000, 4000, 1000]"
    and b: "concat (replies_of (snd (snd (deliver ?e ?long)))) = ?long"
    by blast+
  from chunking_lossless [OF h, of "lit ''hi there''"] short
  have c: "replies_of (snd (snd (deliver ?e (lit ''hi there'')))) = [lit ''hi there'']"
    by blast
  show ?thesis by (intro conjI h a b c)
qed

section \<open>The typing interval\<close>

lemma generateResponse_events:
  "\<exists>req. snd (snd (generateResponse cfg outcome userId prompt st)) = [Fetch req]
         \<and> timeout_ms req = 120000 \<and> stream req = False \<and> model req = OLLAMA_MODEL cfg"
  by (auto simp: generateResponse_def Let_def split: option.splits fetch_outcome.splits body_result.splits prod.splits)

lemma quiet_append: "quiet (xs @ ys) = (quiet xs \<and> quiet ys)"
  by (auto simp: quiet_def)

lemma quiet_typing_ticks: "quiet (typing_ticks rs)"
  by (auto simp: quiet_def typing_ticks_def)

lemma quiet_reply_one: "quiet (snd (reply_one e k text))"
  using quiet_typing_ticks [of "ticks e (Suc k)"] by (simp add: reply_one_def quiet_def)

lemma quiet_reply_all: "quiet (snd (snd (reply_all e k chunks)))"
proof (induction chunks arbitrary: k)
  case Nil
  show ?case by (simp add: quiet_def)
next
  case (Cons c cs)
  obtain r evs where one: "reply_one e k c = (r, evs)" by (cases "reply_one e k c") auto
  obtain r' k' evs' where rest: "reply_all e (Suc k) cs = (r', k', evs')"
    by (cases "reply_all e (Suc k) cs") auto
  from quiet_reply_one [of e k c] one have q1: "quiet evs" by simp
  from Cons [of "Suc k"] rest have q2: "quiet evs'" by simp
  from one rest q1 q2 show ?case
    by (cases r) (simp_all add: quiet_append)
qed

lemma quiet_deliver: "quiet (snd (snd (deliver e response)))"
  using quiet_reply_all [of e 0 "match_chunks response"] quiet_reply_one [of e 0 response]
  by (auto simp: deliver_def split: prod.splits)

lemma quiet_generateResponse: "quiet (snd (snd (generateResponse cfg outcome userId prompt st)))"
  using generateResponse_events [of cfg outcome userId prompt st]
  by (auto simp: quiet_def)

lemma on_text_shape:
  assumes "typing_result e = None"
  shows "\<exists>mid. snd (snd (on_text cfg e userId userMessage st))
              = [SendChatAction, SetInterval] @ mid @ [ClearInterval] \<and> quiet mid"
proof -
  obtain r st' fevs where g: "generateResponse cfg (fetch_result e) userId userMessage st = (r, st', fevs)"
    by (cases "generateResponse cfg (fetch_result e) userId userMessage st") auto
  from quiet_generateResponse [of cfg "fetch_result e" userId userMessage st] g
  have qf: "quiet fevs" by simp
  obtain thrown k tevs where t:
    "(case r of Inl err \<Rightarrow> (Some err, 0, []) | Inr response \<Rightarrow> deliver e response) = (thrown, k, tevs)"
    by (cases "(case r of Inl err \<Rightarrow> (Some err, 0::nat, []) | Inr response \<Rightarrow> deliver e response)") auto
  have qt: "quiet tevs"
  proof (cases r)
    case (Inl err)
    with t show ?thesis by (simp add: quiet_def)
  next
    case (Inr response)
    with t quiet_deliver [of e response] show ?thesis by simp
  qed
  obtain result cevs where c:
    "(case thrown of None \<Rightarrow> (None, [])
      | Some error \<Rightarrow> (case reply_one e k (apology (errorMsg_of error)) of
                        (r', evs) \<Rightarrow> (r', ConsoleError (err_message error) # evs))) = (result, cevs)"
    by (cases "(case thrown of None \<Rightarrow> (None, [])
      | Some error \<Rightarrow> (case reply_one e k (apology (errorMsg_of error)) of
                        (r', evs) \<Rightarrow> (r', ConsoleError (err_message error) # evs)))") auto
  have qc: "quiet cevs"
  proof (cases thrown)
    case None
    with c show ?thesis by (simp add: quiet_def)
  next
    case (Some error)
    with c quiet_reply_one [of e k "apology (errorMsg_of error)"] show ?thesis
      by (auto simp: quiet_def split: prod.splits)
  qed
  have "snd (snd (on_text cfg e userId userMessage st))
          = [SendChatAction, SetInterval] @ (fevs @ typing_ticks (ticks e 0) @ tevs @ cevs) @ [ClearInterval]"
    using assms g t c by (simp add: on_text_def)
  moreover have "quiet (fevs @ typing_ticks (ticks e 0) @ tevs @ cevs)"
    using qf qt qc quiet_typing_ticks by (simp add: quiet_append)
  ultimately show ?thesis by blast
qed

lemma interval_armed_quiet: "quiet evs \<Longrightarrow> interval_armed b (evs @ rest) = interval_armed b rest"
  by (induction b evs rule: interval_armed.induct) (simp_all add: quiet_def)

lemma count_event_quiet:
  "quiet evs \<Longrightarrow> count_event SetInterval evs = 0 \<and> count_event ClearInterval evs = 0"
  by (induction evs) (auto simp: quiet_def count_event_def)

lemma count_event_append: "count_event ev (xs @ ys) = count_event ev xs + count_event ev ys"
  by (simp add: count_event_def)

text \<open>
  C3.  On every path through the text handler the typing interval is not armed when
  the handler finishes, and it was cleared as often as it was set.  Whenever the
  handler got as far as the inference call (the first typing signal was sent), the
  interval was cleared exactly once, as the last thing the handler did: whatever the
  outcome of the request and of every send.
\<close>

theorem interval_always_cleared:
  "\<not> interval_armed False (snd (snd (on_text cfg e userId userMessage st)))
   \<and> count_event ClearInterval (snd (snd (on_text cfg e userId userMessage st)))
       = count_event SetInterval (snd (snd (on_text cfg e userId userMessage st)))
   \<and> (typing_result e = None \<longrightarrow>
        count_event ClearInterval (snd (snd (on_text cfg e userId userMessage st))) = 1
        \<and> last (snd (snd (on_text cfg e userId userMessage st))) = ClearInterval)"
proof (cases "typing_result e")
  case (Some err)
  then show ?thesis by (simp add: on_text_def count_event_def)
next
  case None
  from on_text_shape [OF None, of cfg userId userMessage st]
  obtain mid where shape: "snd (snd (on_text cfg e userId userMessage st))
              = [SendChatAction, SetInterval] @ mid @ [ClearInterval]" and q: "quiet mid"
    by blast
  from q have a: "\<not> interval_armed False ([SendChatAction, SetInterval] @ mid @ [ClearInterval])"
    by (simp add: interval_armed_quiet)
  from count_event_quiet [OF q]
  have b: "count_event ClearInterval ([SendChatAction, SetInterval] @ mid @ [ClearInterval]) = 1"
    and c: "count_event SetInterval ([SendChatAction, SetInterval] @ mid @ [ClearInterval]) = 1"
    by (simp_all add: count_event_append) (simp_all add: count_event_def)
  from a b c show ?thesis by (simp add: shape)
qed

theorem interval_always_cleared_witness:
  "typing_result \<lparr>typing_result = None, fetch_result = FetchRejected timeout_error,
                   reply_result = (\<lambda>_. Some connection_refused_error),
                   ticks = (\<lambda>_. [None, Some timeout_error])\<rparr> = None
   \<and> count_event ClearInterval (snd (snd (on_text
         \<lparr>OLLAMA_HOST = lit ''http://ollama:11434'', OLLAMA_MODEL = lit ''mistral''\<rparr>
         \<lparr>typing_result = None, fetch_result = FetchRejected timeout_error,
          reply_result = (\<lambda>_. Some connection_refused_error),
          ticks = (\<lambda>_. [None, Some timeout_error])\<rparr>
         1 (lit ''hello'') init_state))) = 1
   \<and> \<not> interval_armed False (snd (snd (on_text
         \<lparr>OLLAMA_HOST = lit ''http://ollama:11434'', OLLAMA_MODEL = lit ''mistral''\<rparr>
         \<lparr>typing_result = None, fetch_result = FetchRejected timeout_error,
          reply_result = (\<lambda>_. Some connection_refused_error),
          ticks = (\<lambda>_. [None, Some timeout_error])\<rparr>
         1 (lit ''hello'') init_state)))"
  using interval_always_cleared
    [of "\<lparr>OLLAMA_HOST = lit ''http://ollama:11434'', OLLAMA_MODEL = lit ''mistral''\<rparr>"
        "\<lparr>typing_result = None, fetch_result = FetchRejected timeout_error,
          reply_result = (\<lambda>_. Some connection_refused_error),
          ticks = (\<lambda>_. [None, Some timeout_error])\<rparr>"
        1 "lit ''hello''" init_state]
  by simp

section \<open>The inference call and the store\<close>

lemma generateResponse_success:
  assumes "response_ok status"
  shows "\<exists>st' req. generateResponse cfg (FetchResponse status (BodyContent r)) userId prompt st
           = (Inr r, st', [Fetch req])
         \<and> get_history st' userId =
             slice_last 9 (get_history st userId)
               @ [\<lparr>role = User, content = prompt\<rparr>, \<lparr>role = Assistant, content = r\<rparr>]
         \<and> messages req = slice_last 9 (get_history st userId) @ [\<lparr>role = User, content = prompt\<rparr>]"
  using assms
  by (auto simp: generateResponse_def get_history_def alloc_def push_def Let_def slice_last_def
           split: option.splits)

lemma generateResponse_isl:
  "isl (fst (generateResponse cfg outcome userId prompt st)) = fetch_fails outcome"
  by (auto simp: generateResponse_def fetch_fails_def Let_def split: option.splits fetch_outcome.splits body_result.splits prod.splits)

lemma generateResponse_failure:
  assumes "fetch_fails outcome"
  shows "userContexts (fst (snd (generateResponse cfg outcome userId prompt st))) = userContexts st"
  using assms
  by (auto simp: generateResponse_def fetch_fails_def alloc_def push_def Let_def split: option.splits fetch_outcome.splits body_result.splits prod.splits if_splits)

lemma generateResponse_failure_history:
  assumes "fetch_fails outcome" "wf_state st"
  shows "get_history (fst (snd (generateResponse cfg outcome userId prompt st))) userId
     = (case userContexts st userId of None \<Rightarrow> []
        | Some a \<Rightarrow> get_history st userId @ [\<lparr>role = User, content = prompt\<rparr>])"
  using assms
  by (auto simp: generateResponse_def fetch_fails_def get_history_def wf_state_def alloc_def push_def Let_def split: option.splits fetch_outcome.splits body_result.splits prod.splits if_splits)

lemma generateResponse_wf:
  assumes "wf_state st"
  shows "wf_state (fst (snd (generateResponse cfg outcome userId prompt st)))"
  using assms
  by (auto simp: generateResponse_def wf_state_def alloc_def push_def Let_def intro: less_SucI split: option.splits fetch_outcome.splits body_result.splits prod.splits if_splits)

lemma wf_init_state: "wf_state init_state"
  by (simp add: wf_state_def init_state_def)

lemma generateResponse_rejected:
  "fst (generateResponse cfg (FetchRejected err) userId prompt st) = Inl err"
  by (simp add: generateResponse_def Let_def split: prod.splits)

lemma generateResponse_not_ok:
  "\<not> response_ok status \<Longrightarrow>
   fst (generateResponse cfg (FetchResponse status body) userId prompt st)
     = Inl (new_Error (lit ''Ollama error: '' @ decimal status))"
  by (simp add: generateResponse_def Let_def split: prod.splits)

text \<open>The invariant is kept by the command and by the text handler as well.\<close>

lemma wf_on_clear: "wf_state st \<Longrightarrow> wf_state (fst (on_clear userId st))"
  by (simp add: on_clear_def wf_state_def)

lemma wf_on_text:
  assumes "wf_state st"
  shows "wf_state (fst (snd (on_text cfg e userId userMessage st)))"
proof (cases "typing_result e")
  case (Some err)
  with assms show ?thesis by (simp add: on_text_def)
next
  case None
  with generateResponse_wf [OF assms, of cfg "fetch_result e" userId userMessage]
  show ?thesis by (auto simp: on_text_def split: prod.splits)
qed

section \<open>The text handler, path by path\<close>

text \<open>The handler when the inference call throws.\<close>

lemma on_text_failure:
  assumes "typing_result e = None"
    and "fst (generateResponse cfg (fetch_result e) userId userMessage st) = Inl err"
  shows "fst (on_text cfg e userId userMessage st) = reply_result e 0"
    and "fst (snd (on_text cfg e userId userMessage st))
           = fst (snd (generateResponse cfg (fetch_result e) userId userMessage st))"
    and "replies_of (snd (snd (on_text cfg e userId userMessage st))) = [apology (errorMsg_of err)]"
proof -
  obtain r st' fevs where g: "generateResponse cfg (fetch_result e) userId userMessage st = (r, st', fevs)"
    by (cases "generateResponse cfg (fetch_result e) userId userMessage st") auto
  with assms(2) have r: "r = Inl err" by simp
  from generateResponse_events [of cfg "fetch_result e" userId userMessage st] g
  obtain req where f: "fevs = [Fetch req]" by auto
  show "fst (on_text cfg e userId userMessage st) = reply_result e 0"
    using assms(1) g r by (simp add: on_text_def reply_one_def)
  show "fst (snd (on_text cfg e userId userMessage st))
           = fst (snd (generateResponse cfg (fetch_result e) userId userMessage st))"
    using assms(1) g r by (simp add: on_text_def reply_one_def)
  show "replies_of (snd (snd (on_text cfg e userId userMessage st))) = [apology (errorMsg_of err)]"
    using assms(1) g r f
    by (simp add: on_text_def reply_one_def replies_of_append replies_of_typing_ticks)
qed

lemma on_text_success:
  assumes "typing_result e = None"
    and "generateResponse cfg (fetch_result e) userId userMessage st = (Inr response, st', [Fetch req])"
    and "length response \<le> 4000"
    and "reply_result e 0 = None"
  shows "fst (on_text cfg e userId userMessage st) = None"
    and "fst (snd (on_text cfg e userId userMessage st)) = st'"
    and "replies_of (snd (snd (on_text cfg e userId userMessage st))) = [response]"
    and "requests_of (snd (snd (on_text cfg e userId userMessage st))) = [req]"
  using assms
  by (simp_all add: on_text_def deliver_def reply_one_def replies_of_append replies_of_typing_ticks
        requests_of_append requests_of_typing_ticks)

lemma errorMsg_timeout:
  "err_name err = lit ''TimeoutError'' \<Longrightarrow>
   errorMsg_of err = lit ''Response took too long. Please try a shorter message.''"
  by (simp add: errorMsg_of_def)

lemma errorMsg_refused:
  "cause_code err = Some (lit ''ECONNREFUSED'') \<Longrightarrow> err_name err \<noteq> lit ''TimeoutError'' \<Longrightarrow>
   errorMsg_of err = lit ''Ollama service is not available. Please try again later.''"
  by (simp add: errorMsg_of_def)

lemma errorMsg_new_Error: "errorMsg_of (new_Error msg) = msg"
  by (simp add: errorMsg_of_def new_Error_def lit_def)

lemma sublist_apology: "sublist s errorMsg \<Longrightarrow> sublist s (apology errorMsg)"
  unfolding apology_def sublist_def
  by (metis append.assoc)

lemma took_too_long:
  "sublist (lit ''took too long'') (lit ''Response took too long. Please try a shorter message.'')"
proof -
  have "lit ''Response took too long. Please try a shorter message.''
      = lit ''Response '' @ lit ''took too long'' @ lit ''. Please try a shorter message.''"
    by (simp add: lit_def)
  then show ?thesis by (simp only: sublist_appendI)
qed

lemma not_available:
  "sublist (lit ''service is not available'')
     (lit ''Ollama service is not available. Please try again later.'')"
proof -
  have "lit ''Ollama service is not available. Please try again later.''
      = lit ''Ollama '' @ lit ''service is not available'' @ lit ''. Please try again later.''"
    by (simp add: lit_def)
  then show ?thesis by (simp only: sublist_appendI)
qed

lemma requests_of_reply_one: "requests_of (snd (reply_one e k text)) = []"
  by (simp add: reply_one_def requests_of_typing_ticks)

lemma requests_of_reply_all: "requests_of (snd (snd (reply_all e k chunks))) = []"
proof (induction chunks arbitrary: k)
  case Nil
  show ?case by simp
next
  case (Cons c cs)
  obtain r evs where one: "reply_one e k c = (r, evs)" by (cases "reply_one e k c") auto
  obtain r' k' evs' where rest: "reply_all e (Suc k) cs = (r', k', evs')"
    by (cases "reply_all e (Suc k) cs") auto
  from requests_of_reply_one [of e k c] one have q1: "requests_of evs = []" by simp
  from Cons [of "Suc k"] rest have q2: "requests_of evs' = []" by simp
  from one rest q1 q2 show ?case
    by (cases r) (simp_all add: requests_of_append)
qed

lemma requests_of_deliver: "requests_of (snd (snd (deliver e response))) = []"
  using requests_of_reply_all [of e 0 "match_chunks response"] requests_of_reply_one [of e 0 response]
  by (auto simp: deliver_def split: prod.splits)

text \<open>Once the inference call has returned a reply, the store and the request are settled,
  whatever the delivery does.\<close>

lemma on_text_returned:
  assumes "typing_result e = None"
    and "generateResponse cfg (fetch_result e) userId userMessage st = (Inr response, st', [Fetch req])"
  shows "fst (snd (on_text cfg e userId userMessage st)) = st'"
    and "requests_of (snd (snd (on_text cfg e userId userMessage st))) = [req]"
proof -
  obtain thrown k tevs where d: "deliver e response = (thrown, k, tevs)"
    by (cases "deliver e response") auto
  from requests_of_deliver [of e response] d have rt: "requests_of tevs = []" by simp
  show "fst (snd (on_text cfg e userId userMessage st)) = st'"
    using assms d by (simp add: on_text_def split: option.splits prod.splits)
  show "requests_of (snd (snd (on_text cfg e userId userMessage st))) = [req]"
  proof (cases thrown)
    case None
    with assms d rt show ?thesis
      by (simp add: on_text_def requests_of_append requests_of_typing_ticks)
  next
    case (Some error)
    obtain r' evs where c: "reply_one e k (apology (errorMsg_of error)) = (r', evs)"
      by (cases "reply_one e k (apology (errorMsg_of error))") auto
    from requests_of_reply_one [of e k "apology (errorMsg_of error)"] c
    have "requests_of evs = []" by simp
    with assms d rt Some c show ?thesis
      by (simp add: on_text_def requests_of_append requests_of_typing_ticks)
  qed
qed

lemma on_text_short_reply:
  assumes "typing_result e = None"
    and "generateResponse cfg (fetch_result e) userId userMessage st = (Inr response, st', [Fetch req])"
    and "length response \<le> 4000"
  shows "replies_of (snd (snd (on_text cfg e userId userMessage st)))
           = (case reply_result e 0 of
                None \<Rightarrow> [response]
              | Some err \<Rightarrow> [response, apology (errorMsg_of err)])"
  using assms
  by (simp add: on_text_def deliver_def reply_one_def replies_of_append replies_of_typing_ticks
           split: option.splits)

text \<open>
  C4.  A successful exchange: the first typing signal is sent and the endpoint answers
  with an \<open>ok\<close> status and a reply.  Then, whatever the length of the reply and whatever
  becomes of its delivery, the user's stored history is the last nine turns of the old
  one followed by a user turn with the text sent and an assistant turn with the reply,
  and exactly one request was made, whose messages are the stored turns up to and
  including the new user turn.  For a reply of at most 4000 code units the first
  message sent is the reply, in one piece; it is the only message sent, and the handler
  resolves, when that send succeeds (when it fails, the apology follows).
\<close>

theorem end_to_end_success:
  assumes "typing_result e = None"
    and "fetch_result e = FetchResponse status (BodyContent reply)"
    and "response_ok status"
  shows "get_history (fst (snd (on_text cfg e userId userMessage st))) userId
           = slice_last 9 (get_history st userId)
               @ [\<lparr>role = User, content = userMessage\<rparr>, \<lparr>role = Assistant, content = reply\<rparr>]
       \<and> (\<exists>req. requests_of (snd (snd (on_text cfg e userId userMessage st))) = [req]
             \<and> messages req = slice_last 9 (get_history st userId)
                                 @ [\<lparr>role = User, content = userMessage\<rparr>])
       \<and> (length reply \<le> 4000 \<longrightarrow>
            replies_of (snd (snd (on_text cfg e userId userMessage st)))
              = (case reply_result e 0 of
                   None \<Rightarrow> [reply]
                 | Some err \<Rightarrow> [reply, apology (errorMsg_of err)]))
       \<and> (length reply \<le> 4000 \<longrightarrow> reply_result e 0 = None \<longrightarrow>
            fst (on_text cfg e userId userMessage st) = None
            \<and> replies_of (snd (snd (on_text cfg e userId userMessage st))) = [reply])"
proof -
  from generateResponse_success [OF assms(3), of cfg reply userId userMessage st] assms(2)
  obtain st' req where
    g: "generateResponse cfg (fetch_result e) userId userMessage st = (Inr reply, st', [Fetch req])"
    and h: "get_history st' userId = slice_last 9 (get_history st userId)
               @ [\<lparr>role = User, content = userMessage\<rparr>, \<lparr>role = Assistant, content = reply\<rparr>]"
    and m: "messages req = slice_last 9 (get_history st userId) @ [\<lparr>role = User, content = userMessage\<rparr>]"
    by auto
  from on_text_returned [OF assms(1) g] h
  have a: "get_history (fst (snd (on_text cfg e userId userMessage st))) userId
           = slice_last 9 (get_history st userId)
               @ [\<lparr>role = User, content = userMessage\<rparr>, \<lparr>role = Assistant, content = reply\<rparr>]"
    by simp
  from on_text_returned [OF assms(1) g] m
  have b: "\<exists>req. requests_of (snd (snd (on_text cfg e userId userMessage st))) = [req]
             \<and> messages req = slice_last 9 (get_history st userId)
                                 @ [\<lparr>role = User, content = userMessage\<rparr>]"
    by simp
  have c: "length reply \<le> 4000 \<longrightarrow>
            replies_of (snd (snd (on_text cfg e userId userMessage st)))
              = (case reply_result e 0 of
                   None \<Rightarrow> [reply]
                 | Some err \<Rightarrow> [reply, apology (errorMsg_of err)])"
    using on_text_short_reply [OF assms(1) g] by blast
  have d: "length reply \<le> 4000 \<longrightarrow> reply_result e 0 = None \<longrightarrow>
            fst (on_text cfg e userId userMessage st) = None
            \<and> replies_of (snd (snd (on_text cfg e userId userMessage st))) = [reply]"
    using on_text_success [OF assms(1) g] by blast
  from a b c d show ?thesis by blast
qed

theorem end_to_end_success_witness:
  "get_history (fst (snd (on_text
      \<lparr>OLLAMA_HOST = lit ''http://ollama:11434'', OLLAMA_MODEL = lit ''mistral''\<rparr>
      \<lparr>typing_result = None, fetch_result = FetchResponse 200 (BodyContent (lit ''hi there'')),
       reply_result = (\<lambda>_. None), ticks = (\<lambda>_. [])\<rparr>
      1 (lit ''hello'') init_state))) 1
     = [\<lparr>role = User, content = lit ''hello''\<rparr>, \<lparr>role = Assistant, content = lit ''hi there''\<rparr>]
   \<and> replies_of (snd (snd (on_text
      \<lparr>OLLAMA_HOST = lit ''http://ollama:11434'', OLLAMA_MODEL = lit ''mistral''\<rparr>
      \<lparr>typing_result = None, fetch_result = FetchResponse 200 (BodyContent (lit ''hi there'')),
       reply_result = (\<lambda>_. None), ticks = (\<lambda>_. [])\<rparr>
      1 (lit ''hello'') init_state))) = [lit ''hi there'']
   \<and> fst (on_text
      \<lparr>OLLAMA_HOST = lit ''http://ollama:11434'', OLLAMA_MODEL = lit ''mistral''\<rparr>
      \<lparr>typing_result = None, fetch_result = FetchResponse 200 (BodyContent (lit ''hi there'')),
       reply_result = (\<lambda>_. None), ticks = (\<lambda>_. [])\<rparr>
      1 (lit ''hello'') init_state) = None
   \<and> get_history (fst (snd (on_text
      \<lparr>OLLAMA_HOST = lit ''http://ollama:11434'', OLLAMA_MODEL = lit ''mistral''\<rparr>
      \<lparr>typing_result = None, fetch_result = FetchResponse 200 (BodyContent (replicate 9000 0x61)),
       reply_result = (\<lambda>_. Some connection_refused_error), ticks = (\<lambda>_. [])\<rparr>
      1 (lit ''hello'') init_state))) 1
     = [\<lparr>role = User, content = lit ''hello''\<rparr>, \<lparr>role = Assistant, content = replicate 9000 0x61\<rparr>]"
proof -
  let ?cfg = "\<lparr>OLLAMA_HOST = lit ''http://ollama:11434'', OLLAMA_MODEL = lit ''mistral''\<rparr>"
  let ?e = "\<lparr>typing_result = None, fetch_result = FetchResponse 200 (BodyContent (lit ''hi there'')),
       reply_result = (\<lambda>_. None), ticks = (\<lambda>_. [])\<rparr>"
  let ?e' = "\<lparr>typing_result = None, fetch_result = FetchResponse 200 (BodyContent (replicate 9000 0x61)),
       reply_result = (\<lambda>_. Some connection_refused_error), ticks = (\<lambda>_. [])\<rparr>"
  have 1: "typing_result ?e = None" by simp
  have 2: "fetch_result ?e = FetchResponse 200 (BodyContent (lit ''hi there''))" by simp
  have 3: "response_ok 200" by (simp add: response_ok_def)
  have 4: "length (lit ''hi there'') \<le> 4000" by (simp add: lit_def)
  have 5: "reply_result ?e 0 = None" by simp
  have 6: "slice_last 9 (get_history init_state 1) = []"
    by (simp add: slice_last_def get_history_def init_state_def)
  have 7: "typing_result ?e' = None" by simp
  have 8: "fetch_result ?e' = FetchResponse 200 (BodyContent (replicate 9000 0x61))" by simp
  from end_to_end_success [OF 1 2 3, of ?cfg 1 "lit ''hello''" init_state] 4 5 6
  have a: "get_history (fst (snd (on_text ?cfg ?e 1 (lit ''hello'') init_state))) 1
     = [\<lparr>role = User, content = lit ''hello''\<rparr>, \<lparr>role = Assistant, content = lit ''hi there''\<rparr>]"
    and b: "replies_of (snd (snd (on_text ?cfg ?e 1 (lit ''hello'') init_state))) = [lit ''hi there'']"
    and c: "fst (on_text ?cfg ?e 1 (lit ''hello'') init_state) = None"
    by simp_all
  from end_to_end_success [OF 7 8 3, of ?cfg 1 "lit ''hello''" init_state] 6
  have d: "get_history (fst (snd (on_text ?cfg ?e' 1 (lit ''hello'') init_state))) 1
     = [\<lparr>role = User, content = lit ''hello''\<rparr>, \<lparr>role = Assistant, content = replicate 9000 0x61\<rparr>]"
    by simp
  show ?thesis by (intro conjI a b c d)
qed

text \<open>
  C5.  The request is made with a timeout of 120000 ms.  When the platform rejects it
  with a \<open>TimeoutError\<close> (what it does when that timeout expires), the inference call
  fails with that error and the handler sends exactly one message, the apology with
  the text \<open>Response took too long. Please try a shorter message.\<close>, which contains
  \<open>took too long\<close>; the handler then finishes with the result of that send, so it
  resolves when the apology is delivered.
\<close>

theorem timeout_reply:
  assumes "typing_result e = None"
    and "fetch_result e = FetchRejected err"
    and "err_name err = lit ''TimeoutError''"
  shows "fst (generateResponse cfg (fetch_result e) userId userMessage st) = Inl err
       \<and> (\<exists>req. snd (snd (generateResponse cfg (fetch_result e) userId userMessage st)) = [Fetch req]
             \<and> timeout_ms req = 120000)
       \<and> replies_of (snd (snd (on_text cfg e userId userMessage st)))
           = [apology (lit ''Response took too long. Please try a shorter message.'')]
       \<and> sublist (lit ''took too long'')
           (apology (lit ''Response took too long. Please try a shorter message.''))
       \<and> fst (on_text cfg e userId userMessage st) = reply_result e 0"
proof -
  have g: "fst (generateResponse cfg (fetch_result e) userId userMessage st) = Inl err"
    by (simp add: assms(2) generateResponse_rejected)
  from generateResponse_events [of cfg "fetch_result e" userId userMessage st]
  have r: "\<exists>req. snd (snd (generateResponse cfg (fetch_result e) userId userMessage st)) = [Fetch req]
             \<and> timeout_ms req = 120000" by blast
  from on_text_failure [OF assms(1) g] errorMsg_timeout [OF assms(3)]
  have a: "replies_of (snd (snd (on_text cfg e userId userMessage st)))
           = [apology (lit ''Response took too long. Please try a shorter message.'')]"
    and b: "fst (on_text cfg e userId userMessage st) = reply_result e 0"
    by simp_all
  from g r a b sublist_apology [OF took_too_long] show ?thesis by blast
qed

theorem timeout_reply_witness:
  "replies_of (snd (snd (on_text
      \<lparr>OLLAMA_HOST = lit ''http://ollama:11434'', OLLAMA_MODEL = lit ''mistral''\<rparr>
      \<lparr>typing_result = None, fetch_result = FetchRejected timeout_error,
       reply_result = (\<lambda>_. None), ticks = (\<lambda>_. [None])\<rparr>
      1 (lit ''hello'') init_state)))
     = [apology (lit ''Response took too long. Please try a shorter message.'')]
   \<and> fst (on_text
      \<lparr>OLLAMA_HOST = lit ''http://ollama:11434'', OLLAMA_MODEL = lit ''mistral''\<rparr>
      \<lparr>typing_result = None, fetch_result = FetchRejected timeout_error,
       reply_result = (\<lambda>_. None), ticks = (\<lambda>_. [None])\<rparr>
      1 (lit ''hello'') init_state) = None"
proof -
  let ?e = "\<lparr>typing_result = None, fetch_result = FetchRejected timeout_error,
       reply_result = (\<lambda>_. None), ticks = (\<lambda>_. [None])\<rparr>"
  have 1: "typing_result ?e = None" by simp
  have 2: "fetch_result ?e = FetchRejected timeout_error" by simp
  have 3: "err_name timeout_error = lit ''TimeoutError''" by (simp add: timeout_error_def)
  from timeout_reply [OF 1 2 3,
      of "\<lparr>OLLAMA_HOST = lit ''http://ollama:11434'', OLLAMA_MODEL = lit ''mistral''\<rparr>"
         1 "lit ''hello''" init_state]
  show ?thesis by simp
qed

text \<open>
  C6.  When \<open>fetch\<close> rejects with an error whose cause has the code
  \<open>ECONNREFUSED\<close> (and which is not a \<open>TimeoutError\<close>), the inference call fails
  with that error and the handler sends exactly one message, the apology with the text
  \<open>Ollama service is not available. Please try again later.\<close>; it finishes with the
  result of that send.
\<close>

theorem connection_refused_reply:
  assumes "typing_result e = None"
    and "fetch_result e = FetchRejected err"
    and "cause_code err = Some (lit ''ECONNREFUSED'')"
    and "err_name err \<noteq> lit ''TimeoutError''"
  shows "fst (generateResponse cfg (fetch_result e) userId userMessage st) = Inl err
       \<and> replies_of (snd (snd (on_text cfg e userId userMessage st)))
           = [apology (lit ''Ollama service is not available. Please try again later.'')]
       \<and> sublist (lit ''service is not available'')
           (apology (lit ''Ollama service is not available. Please try again later.''))
       \<and> fst (on_text cfg e userId userMessage st) = reply_result e 0"
proof -
  have g: "fst (generateResponse cfg (fetch_result e) userId userMessage st) = Inl err"
    by (simp add: assms(2) generateResponse_rejected)
  from on_text_failure [OF assms(1) g] errorMsg_refused [OF assms(3) assms(4)]
  have a: "replies_of (snd (snd (on_text cfg e userId userMessage st)))
           = [apology (lit ''Ollama service is not available. Please try again later.'')]"
    and b: "fst (on_text cfg e userId userMessage st) = reply_result e 0"
    by simp_all
  from g a b sublist_apology [OF not_available] show ?thesis by blast
qed

theorem connection_refused_reply_witness:
  "replies_of (snd (snd (on_text
      \<lparr>OLLAMA_HOST = lit ''http://ollama:11434'', OLLAMA_MODEL = lit ''mistral''\<rparr>
      \<lparr>typing_result = None, fetch_result = FetchRejected connection_refused_error,
       reply_result = (\<lambda>_. None), ticks = (\<lambda>_. [])\<rparr>
      1 (lit ''hello'') init_state)))
     = [apology (lit ''Ollama service is not available. Please try again later.'')]
   \<and> fst (on_text
      \<lparr>OLLAMA_HOST = lit ''http://ollama:11434'', OLLAMA_MODEL = lit ''mistral''\<rparr>
      \<lparr>typing_result = None, fetch_result = FetchRejected connection_refused_error,
       reply_result = (\<lambda>_. None), ticks = (\<lambda>_. [])\<rparr>
      1 (lit ''hello'') init_state) = None"
proof -
  let ?e = "\<lparr>typing_result = None, fetch_result = FetchRejected connection_refused_error,
       reply_result = (\<lambda>_. None), ticks = (\<lambda>_. [])\<rparr>"
  have 1: "typing_result ?e = None" by simp
  have 2: "fetch_result ?e = FetchRejected connection_refused_error" by simp
  have 3: "cause_code connection_refused_error = Some (lit ''ECONNREFUSED'')"
    by (simp add: connection_refused_error_def)
  have 4: "err_name connection_refused_error \<noteq> lit ''TimeoutError''"
    by (simp add: connection_refused_error_def lit_def)
  from connection_refused_reply [OF 1 2 3 4,
      of "\<lparr>OLLAMA_HOST = lit ''http://ollama:11434'', OLLAMA_MODEL = lit ''mistral''\<rparr>"
         1 "lit ''hello''" init_state]
  show ?thesis by simp
qed

text \<open>
  C7.  When the endpoint answers with a status outside 200..299, the inference call
  fails with \<open>Error("Ollama error: <status>")\<close>, the handler sends exactly one
  message, the apology with that text (so the status, in decimal, is in it), no reply
  text is returned, the map of users is unchanged and the user's stored history gains
  no assistant turn: it is still absent, or it is the old one with the new user turn.
\<close>

theorem endpoint_error_reply:
  assumes "typing_result e = None"
    and "fetch_result e = FetchResponse status body"
    and "\<not> response_ok status"
    and "wf_state st"
  shows "fst (generateResponse cfg (fetch_result e) userId userMessage st)
           = Inl (new_Error (lit ''Ollama error: '' @ decimal status))
       \<and> replies_of (snd (snd (on_text cfg e userId userMessage st)))
           = [apology (lit ''Ollama error: '' @ decimal status)]
       \<and> sublist (decimal status) (apology (lit ''Ollama error: '' @ decimal status))
       \<and> userContexts (fst (snd (on_text cfg e userId userMessage st))) = userContexts st
       \<and> get_history (fst (snd (on_text cfg e userId userMessage st))) userId
           = (case userContexts st userId of
                None \<Rightarrow> []
              | Some a \<Rightarrow> get_history st userId @ [\<lparr>role = User, content = userMessage\<rparr>])"
proof -
  have g: "fst (generateResponse cfg (fetch_result e) userId userMessage st)
           = Inl (new_Error (lit ''Ollama error: '' @ decimal status))"
    by (simp add: assms(2) generateResponse_not_ok [OF assms(3)])
  have f: "fetch_fails (fetch_result e)"
    by (simp add: assms(2) assms(3) fetch_fails_def)
  from on_text_failure [OF assms(1) g]
  have a: "replies_of (snd (snd (on_text cfg e userId userMessage st)))
           = [apology (lit ''Ollama error: '' @ decimal status)]"
    and s: "fst (snd (on_text cfg e userId userMessage st))
           = fst (snd (generateResponse cfg (fetch_result e) userId userMessage st))"
    by (simp_all add: errorMsg_new_Error)
  have b: "sublist (decimal status) (apology (lit ''Ollama error: '' @ decimal status))"
    by (rule sublist_apology) simp
  from generateResponse_failure [OF f] s
  have c: "userContexts (fst (snd (on_text cfg e userId userMessage st))) = userContexts st"
    by simp
  from generateResponse_failure_history [OF f assms(4)] s
  have d: "get_history (fst (snd (on_text cfg e userId userMessage st))) userId
           = (case userContexts st userId of
                None \<Rightarrow> []
              | Some a \<Rightarrow> get_history st userId @ [\<lparr>role = User, content = userMessage\<rparr>])"
    by simp
  from g a b c d show ?thesis by blast
qed

theorem endpoint_error_reply_witness:
  "replies_of (snd (snd (on_text
      \<lparr>OLLAMA_HOST = lit ''http://ollama:11434'', OLLAMA_MODEL = lit ''mistral''\<rparr>
      \<lparr>typing_result = None, fetch_result = FetchResponse 500 (BodyContent (lit ''oops'')),
       reply_result = (\<lambda>_. None), ticks = (\<lambda>_. [])\<rparr>
      1 (lit ''hello'') init_state)))
     = [apology (lit ''Ollama error: 500'')]
   \<and> get_history (fst (snd (on_text
      \<lparr>OLLAMA_HOST = lit ''http://ollama:11434'', OLLAMA_MODEL = lit ''mistral''\<rparr>
      \<lparr>typing_result = None, fetch_result = FetchResponse 500 (BodyContent (lit ''oops'')),
       reply_result = (\<lambda>_. None), ticks = (\<lambda>_. [])\<rparr>
      1 (lit ''hello'') init_state))) 1 = []"
proof -
  let ?e = "\<lparr>typing_result = None, fetch_result = FetchResponse 500 (BodyContent (lit ''oops'')),
       reply_result = (\<lambda>_. None), ticks = (\<lambda>_. [])\<rparr>"
  have 1: "typing_result ?e = None" by simp
  have 2: "fetch_result ?e = FetchResponse 500 (BodyContent (lit ''oops''))" by simp
  have 3: "\<not> response_ok 500" by (simp add: response_ok_def)
  have 4: "lit ''Ollama error: '' @ decimal 500 = lit ''Ollama error: 500''"
    by (simp add: decimal.simps digit_unit_def lit_def)
  have 5: "userContexts init_state 1 = None" by (simp add: init_state_def)
  from endpoint_error_reply [OF 1 2 3 wf_init_state,
      of "\<lparr>OLLAMA_HOST = lit ''http://ollama:11434'', OLLAMA_MODEL = lit ''mistral''\<rparr>"
         1 "lit ''hello''"] 4 5
  show ?thesis by simp
qed

text \<open>
  The periodic sends are best effort: the handler's result, the store and the trace
  do not depend on whether any of them succeeds.
\<close>

lemma typing_ticks_length: "length rs = length rs' \<Longrightarrow> typing_ticks rs = typing_ticks rs'"
  by (simp add: typing_ticks_def map_replicate_const)

lemma reply_one_ticks:
  assumes "\<forall>k. length (t k) = length (ticks e k)"
  shows "reply_one (e\<lparr>ticks := t\<rparr>) k text = reply_one e k text"
  using typing_ticks_length [of "t (Suc k)" "ticks e (Suc k)"] assms
  by (simp add: reply_one_def)

lemma reply_all_ticks:
  assumes "\<forall>k. length (t k) = length (ticks e k)"
  shows "reply_all (e\<lparr>ticks := t\<rparr>) k chunks = reply_all e k chunks"
  by (induction chunks arbitrary: k)
     (simp_all add: reply_one_ticks [OF assms] split: prod.splits option.splits)

lemma deliver_ticks:
  assumes "\<forall>k. length (t k) = length (ticks e k)"
  shows "deliver (e\<lparr>ticks := t\<rparr>) response = deliver e response"
  by (simp add: deliver_def reply_one_ticks [OF assms] reply_all_ticks [OF assms])

lemma periodic_failures_swallowed:
  assumes "\<forall>k. length (t k) = length (ticks e k)"
  shows "on_text cfg (e\<lparr>ticks := t\<rparr>) userId userMessage st = on_text cfg e userId userMessage st"
  using typing_ticks_length [of "t 0" "ticks e 0"] assms
  by (simp add: on_text_def deliver_ticks [OF assms] reply_one_ticks [OF assms]
           split: option.splits prod.splits sum.splits)

text \<open>
  C8.  The first typing signal is awaited outside the \<open>try\<close> statement and without a
  \<open>catch\<close>: when that send fails, the handler rejects with the send's error at once.
  No request is made, nothing is replied, the store is untouched and the interval is
  never armed.
\<close>

theorem initial_typing_failure_aborts:
  "typing_result e = Some err \<Longrightarrow>
   on_text cfg e userId userMessage st = (Some err, st, [SendChatAction])"
  by (simp add: on_text_def)

theorem initial_typing_failure_aborts_witness:
  "typing_result \<lparr>typing_result = Some timeout_error,
                   fetch_result = FetchResponse 200 (BodyContent (lit ''hi there'')),
                   reply_result = (\<lambda>_. None), ticks = (\<lambda>_. [])\<rparr> = Some timeout_error
   \<and> on_text
      \<lparr>OLLAMA_HOST = lit ''http://ollama:11434'', OLLAMA_MODEL = lit ''mistral''\<rparr>
      \<lparr>typing_result = Some timeout_error,
       fetch_result = FetchResponse 200 (BodyContent (lit ''hi there'')),
       reply_result = (\<lambda>_. None), ticks = (\<lambda>_. [])\<rparr>
      1 (lit ''hello'') init_state = (Some timeout_error, init_state, [SendChatAction])"
proof -
  let ?e = "\<lparr>typing_result = Some timeout_error,
       fetch_result = FetchResponse 200 (BodyContent (lit ''hi there'')),
       reply_result = (\<lambda>_. None), ticks = (\<lambda>_. [])\<rparr>"
  have 1: "typing_result ?e = Some timeout_error" by simp
  from 1 initial_typing_failure_aborts [OF 1,
      of "\<lparr>OLLAMA_HOST = lit ''http://ollama:11434'', OLLAMA_MODEL = lit ''mistral''\<rparr>"
         1 "lit ''hello''" init_state]
  show ?thesis by blast
qed

section \<open>The clear command\<close>

text \<open>
  C9.  After \<open>/clear\<close> the user's history is empty; a second \<open>/clear\<close> leaves the
  state as the first one left it, the history still empty; clearing a user that has no
  entry changes nothing; and every \<open>/clear\<close> sends the confirmation and makes no
  request to the inference endpoint.
\<close>

theorem clear_idempotent:
  "get_history (fst (on_clear userId st)) userId = []
   \<and> fst (on_clear userId (fst (on_clear userId st))) = fst (on_clear userId st)
   \<and> get_history (fst (on_clear userId (fst (on_clear userId st)))) userId = []
   \<and> (userContexts st userId = None \<longrightarrow> fst (on_clear userId st) = st)
   \<and> requests_of (snd (on_clear userId st)) = []
   \<and> replies_of (snd (on_clear userId st)) = [broom @ lit '' Conversation history cleared!'']"
  by (auto simp: on_clear_def get_history_def fun_upd_idem)

theorem clear_idempotent_witness:
  "userContexts init_state 1 = None
   \<and> fst (on_clear 1 init_state) = init_state
   \<and> get_history (fst (on_clear 1 (fst (on_clear 1 init_state)))) 1 = []"
proof -
  have n: "userContexts init_state 1 = None" by (simp add: init_state_def)
  from clear_idempotent [of 1 init_state] n show ?thesis by blast
qed

section \<open>The size of the stored history\<close>

text \<open>
  C10.  Calls that fail, one after another, from a well-formed state: the map of users
  is unchanged; a user without an entry still has none, so the history read is empty;
  a user with an entry has every prompt appended to the stored array as a user turn,
  untrimmed, so the stored history grows by one turn with every failed call.
\<close>

theorem failed_calls_grow_history:
  assumes "wf_state st"
    and "list_all (\<lambda>c. fetch_fails (snd c)) calls"
  shows "userContexts (run_calls cfg userId calls st) = userContexts st
       \<and> get_history (run_calls cfg userId calls st) userId
           = (case userContexts st userId of
                None \<Rightarrow> []
              | Some a \<Rightarrow> get_history st userId
                            @ map (\<lambda>c. \<lparr>role = User, content = fst c\<rparr>) calls)
       \<and> (userContexts st userId \<noteq> None \<longrightarrow>
            length (get_history (run_calls cfg userId calls st) userId)
              = length (get_history st userId) + length calls)"
  using assms
proof (induction calls arbitrary: st)
  case Nil
  then show ?case by (simp add: get_history_def split: option.splits)
next
  case (Cons c calls)
  obtain prompt outcome where c: "c = (prompt, outcome)" by (cases c) auto
  let ?st1 = "fst (snd (generateResponse cfg outcome userId prompt st))"
  from Cons.prems(2) c have f: "fetch_fails outcome" and rest: "list_all (\<lambda>c. fetch_fails (snd c)) calls"
    by simp_all
  have wf1: "wf_state ?st1" by (rule generateResponse_wf [OF Cons.prems(1)])
  have u1: "userContexts ?st1 = userContexts st" by (rule generateResponse_failure [OF f])
  have h1: "get_history ?st1 userId
     = (case userContexts st userId of None \<Rightarrow> []
        | Some a \<Rightarrow> get_history st userId @ [\<lparr>role = User, content = prompt\<rparr>])"
    by (rule generateResponse_failure_history [OF f Cons.prems(1)])
  from Cons.IH [OF wf1 rest] u1 h1 c show ?case
    by (simp split: option.splits)
qed

theorem failed_calls_grow_history_witness:
  "wf_state \<lparr>heap = (\<lambda>_. [])(0 := [\<lparr>role = User, content = lit ''hello''\<rparr>,
                                    \<lparr>role = Assistant, content = lit ''hi there''\<rparr>]),
             next_addr = 1, userContexts = [1 \<mapsto> 0]\<rparr>
   \<and> list_all (\<lambda>c. fetch_fails (snd c)) (replicate 12 (lit ''again'', FetchRejected timeout_error))
   \<and> length (get_history (run_calls
        \<lparr>OLLAMA_HOST = lit ''http://ollama:11434'', OLLAMA_MODEL = lit ''mistral''\<rparr> 1
        (replicate 12 (lit ''again'', FetchRejected timeout_error))
        \<lparr>heap = (\<lambda>_. [])(0 := [\<lparr>role = User, content = lit ''hello''\<rparr>,
                                \<lparr>role = Assistant, content = lit ''hi there''\<rparr>]),
         next_addr = 1, userContexts = [1 \<mapsto> 0]\<rparr>) 1) = 14
   \<and> get_history (run_calls
        \<lparr>OLLAMA_HOST = lit ''http://ollama:11434'', OLLAMA_MODEL = lit ''mistral''\<rparr> 1
        (replicate 12 (lit ''again'', FetchRejected timeout_error)) init_state) 1 = []"
proof -
  let ?st = "\<lparr>heap = (\<lambda>_. [])(0 := [\<lparr>role = User, content = lit ''hello''\<rparr>,
                                \<lparr>role = Assistant, content = lit ''hi there''\<rparr>]),
         next_addr = 1, userContexts = [1 \<mapsto> (0::nat)]\<rparr>"
  let ?calls = "replicate 12 (lit ''again'', FetchRejected timeout_error)"
  let ?cfg = "\<lparr>OLLAMA_HOST = lit ''http://ollama:11434'', OLLAMA_MODEL = lit ''mistral''\<rparr>"
  have 1: "wf_state ?st" by (simp add: wf_state_def)
  have 2: "list_all (\<lambda>c. fetch_fails (snd c)) ?calls"
    by (simp add: list_all_iff fetch_fails_def)
  have u: "userContexts ?st 1 \<noteq> None" by simp
  have g: "length (get_history ?st 1) = 2" by (simp add: get_history_def)
  from failed_calls_grow_history [OF 1 2, of ?cfg 1] u
  have "length (get_history (run_calls ?cfg 1 ?calls ?st) 1)
          = length (get_history ?st 1) + length ?calls"
    by blast
  with g have 3: "length (get_history (run_calls ?cfg 1 ?calls ?st) 1) = 14" by simp
  have n: "userContexts init_state 1 = None" by (simp add: init_state_def)
  from failed_calls_grow_history [OF wf_init_state 2, of ?cfg 1]
  have "get_history (run_calls ?cfg 1 ?calls init_state) 1
          = (case userContexts init_state 1 of
               None \<Rightarrow> []
             | Some a \<Rightarrow> get_history init_state 1
                           @ map (\<lambda>c. \<lparr>role = User, content = fst c\<rparr>) ?calls)"
    by blast
  with n have 4: "get_history (run_calls ?cfg 1 ?calls init_state) 1 = []" by simp
  show ?thesis by (intro conjI 1 2 3 4)
qed

lemma run_calls_append:
  "run_calls cfg userId (xs @ ys) st = run_calls cfg userId ys (run_calls cfg userId xs st)"
  by (induction xs arbitrary: st) auto

lemma run_calls_success_length:
  assumes "response_ok status"
  shows "length (get_history (run_calls cfg userId
            (replicate n (prompt, FetchResponse status (BodyContent reply))) st) userId)
         = (if n = 0 then length (get_history st userId)
            else min 9 (length (get_history st userId) + 2 * (n - 1)) + 2)"
proof (induction n arbitrary: st)
  case 0
  show ?case by simp
next
  case (Suc n)
  let ?st1 = "fst (snd (generateResponse cfg (FetchResponse status (BodyContent reply)) userId prompt st))"
  from generateResponse_success [OF assms, of cfg reply userId prompt st]
  have "length (get_history ?st1 userId) = min 9 (length (get_history st userId)) + 2"
    by (auto simp: length_slice_last)
  with Suc [of ?st1] show ?case by (cases n) auto
qed

text \<open>
  C1.  The array is cut to its last 10 turns before the request is made and the
  assistant turn is pushed after it: a successful call on a stored history of at least
  9 turns leaves 11 turns stored.  Six successful exchanges from the initial state are
  such a case.
\<close>

theorem stored_history_exceeds_cap:
  assumes "response_ok status"
    and "9 \<le> length (get_history st userId)"
  shows "length (get_history (fst (snd (generateResponse cfg
            (FetchResponse status (BodyContent reply)) userId prompt st))) userId) = 11"
  using generateResponse_success [OF assms(1), of cfg reply userId prompt st] assms(2)
  by (auto simp: length_slice_last)

theorem stored_history_exceeds_cap_witness:
  "length (get_history (run_calls
      \<lparr>OLLAMA_HOST = lit ''http://ollama:11434'', OLLAMA_MODEL = lit ''mistral''\<rparr> 1
      (replicate 6 (lit ''hello'', FetchResponse 200 (BodyContent (lit ''hi there''))))
      init_state) 1) = 11"
proof -
  let ?cfg = "\<lparr>OLLAMA_HOST = lit ''http://ollama:11434'', OLLAMA_MODEL = lit ''mistral''\<rparr>"
  let ?c = "(lit ''hello'', FetchResponse 200 (BodyContent (lit ''hi there'')))"
  let ?st5 = "run_calls ?cfg 1 (replicate 5 ?c) init_state"
  have ok: "response_ok 200" by (simp add: response_ok_def)
  have "length (get_history ?st5 1) = 10"
    using run_calls_success_length [OF ok, of ?cfg 1 5 "lit ''hello''" "lit ''hi there''" init_state]
    by (simp add: get_history_def init_state_def)
  then have nine: "9 \<le> length (get_history ?st5 1)" by simp
  have six: "replicate 6 ?c = replicate 5 ?c @ [?c]"
    by (simp add: eval_nat_numeral replicate_append_same)
  from stored_history_exceeds_cap [OF ok nine, of ?cfg "lit ''hi there''" "lit ''hello''"]
  show ?thesis by (simp only: six run_calls_append run_calls.simps)
qed

end
